theory Spec2Isabelle
  imports Main
begin

section \<open>The JavaScript values the server computes with\<close>

subsection \<open>Strings\<close>

text \<open>
  A JavaScript string is a sequence of code units. The model takes the strings whose code
  units are below 256, one \<^typ>\<open>char\<close> per code unit. On those,
  \<^verbatim>\<open>String.prototype.toLowerCase\<close> moves \<^verbatim>\<open>A-Z\<close>, and the Latin-1 capitals
  \<^verbatim>\<open>U+00C0-U+00D6\<close> and \<^verbatim>\<open>U+00D8-U+00DE\<close>, up by 32 and leaves every other code
  unit alone.
\<close>

definition toLowerCase_char :: "char \<Rightarrow> char" where
  "toLowerCase_char c =
     (let n = (of_char c :: nat) in
      if (65 \<le> n \<and> n \<le> 90) \<or> (192 \<le> n \<and> n \<le> 214) \<or> (216 \<le> n \<and> n \<le> 222)
      then char_of (n + 32) else c)"

definition toLowerCase :: "string \<Rightarrow> string" where
  "toLowerCase s = map toLowerCase_char s"

subsection \<open>Exceptions\<close>

text \<open>What a \<^verbatim>\<open>throw\<close> carries: the two built-in errors the handlers can meet, and
  whatever an answer provider throws.\<close>

datatype js_error = SyntaxError | TypeError | Thrown string

subsection \<open>Regular expressions\<close>

text \<open>
  \<^verbatim>\<open>new RegExp(p, 'g')\<close> reads the string \<^verbatim>\<open>p\<close> as a pattern. The pattern language
  is modelled on the patterns made of pattern characters (every character that is not one
  of the fourteen syntax characters) and of \<^verbatim>\<open>.\<close>, which stands for any one character
  that is not a line terminator. Each such atom takes exactly one character of the subject.
  What the engine does with a pattern holding any other syntax character (a quantifier, a
  class, a group, an escape, a malformed pattern that makes the constructor throw
  \<^verbatim>\<open>SyntaxError\<close>) is not modelled: it is a parameter \<open>host\<close> of the model, and every
  theorem holds for whatever the host does there.
\<close>

definition SyntaxCharacter :: "char \<Rightarrow> bool" where
  "SyntaxCharacter c \<longleftrightarrow>
     c \<in> set [CHR ''^'', CHR ''$'', CHR 0x5C, CHR ''.'', CHR ''*'', CHR ''+'', CHR ''?'',
                CHR ''('', CHR '')'', CHR ''['', CHR '']'', CHR ''{'', CHR ''}'', CHR ''|'']"

definition LineTerminator :: "char \<Rightarrow> bool" where
  "LineTerminator c \<longleftrightarrow> c = CHR 0x0A \<or> c = CHR 0x0D"

datatype atom = PatternCharacter char | Dot

fun atom_matches :: "atom \<Rightarrow> char \<Rightarrow> bool" where
  "atom_matches (PatternCharacter a) c = (a = c)"
| "atom_matches Dot c = (\<not> LineTerminator c)"

text \<open>The atoms of a pattern of the modelled fragment; \<open>None\<close> for every other pattern.\<close>

fun pattern_atoms :: "string \<Rightarrow> atom list option" where
  "pattern_atoms [] = Some []"
| "pattern_atoms (c # cs) =
     (if c = CHR ''.'' then map_option (Cons Dot) (pattern_atoms cs)
      else if SyntaxCharacter c then None
      else map_option (Cons (PatternCharacter c)) (pattern_atoms cs))"

text \<open>Does the pattern match at the start of the subject?\<close>

fun matches_at :: "atom list \<Rightarrow> string \<Rightarrow> bool" where
  "matches_at [] s = True"
| "matches_at (a # as) [] = False"
| "matches_at (a # as) (c # cs) = (atom_matches a c \<and> matches_at as cs)"

text \<open>
  \<^verbatim>\<open>subject.match(re)\<close> with the \<^verbatim>\<open>g\<close> flag collects the matches from left to right:
  the search resumes where the last match ended, and one character further on after an
  empty match (the empty pattern matches at every position, the end included).
  \<open>match_all\<close> is the number of matches collected from the given rest of the subject.
\<close>

fun match_all :: "atom list \<Rightarrow> string \<Rightarrow> nat" where
  "match_all [] [] = 1"
| "match_all [] (c # cs) = 1 + match_all [] cs"
| "match_all (a # as) [] = 0"
| "match_all (a # as) (c # cs) =
     (if matches_at (a # as) (c # cs) then 1 + match_all (a # as) (drop (length as) cs)
      else match_all (a # as) cs)"

type_synonym regexp_host = "string \<Rightarrow> string \<Rightarrow> js_error + nat"

text \<open>
  \<^verbatim>\<open>(texto.match(new RegExp(pattern, 'g')) || []).length\<close>: the number of matches
  (\<^verbatim>\<open>match\<close> gives \<^verbatim>\<open>null\<close> when there is none), or the exception of the constructor.
\<close>

definition match_length :: "regexp_host \<Rightarrow> string \<Rightarrow> string \<Rightarrow> js_error + nat" where
  "match_length host texto pattern =
     (case pattern_atoms pattern of
        Some atoms \<Rightarrow> Inr (match_all atoms texto)
      | None \<Rightarrow> host pattern texto)"

subsection \<open>Objects used as dictionaries\<close>

text \<open>
  An object created by \<^verbatim>\<open>{}\<close> or by an object literal is modelled by its own enumerable
  properties, in the order \<^verbatim>\<open>Object.keys\<close> and \<^verbatim>\<open>JSON.stringify\<close> list them: the
  keys that are array indices first, by ascending value, then the other keys in the order
  of their creation.
\<close>

type_synonym 'v object = "(string \<times> 'v) list"

text \<open>
  An array index is the canonical decimal form of an integer from 0 to \<open>2\<^sup>3\<^sup>2 - 2\<close>: digits
  only, no leading zero but in \<^verbatim>\<open>0\<close> itself, and at most \<^verbatim>\<open>4294967294\<close>. Canonical
  forms are compared as numbers by comparing their lengths first and, at equal length,
  their digits from the left.
\<close>

definition digit :: "char \<Rightarrow> bool" where
  "digit c \<longleftrightarrow> c \<in> set ''0123456789''"

fun digits_less :: "string \<Rightarrow> string \<Rightarrow> bool" where
  "digits_less [] ds = False"
| "digits_less (c # cs) [] = False"
| "digits_less (c # cs) (d # ds) =
     ((of_char c :: nat) < of_char d \<or> (c = d \<and> digits_less cs ds))"

definition index_less :: "string \<Rightarrow> string \<Rightarrow> bool" where
  "index_less k k' \<longleftrightarrow> length k < length k' \<or> (length k = length k' \<and> digits_less k k')"

definition array_index :: "string \<Rightarrow> bool" where
  "array_index k \<longleftrightarrow>
     k \<noteq> [] \<and> list_all digit k \<and> (if hd k = CHR ''0'' then k = ''0'' else True)
     \<and> \<not> index_less ''4294967294'' k"

text \<open>Creating a property that the object does not have yet.\<close>

fun js_define :: "string \<Rightarrow> 'v \<Rightarrow> 'v object \<Rightarrow> 'v object" where
  "js_define k v [] = [(k, v)]"
| "js_define k v ((k', v') # rest) =
     (if array_index k then
        (if array_index k' \<and> index_less k' k then (k', v') # js_define k v rest
         else (k, v) # (k', v') # rest)
      else (k', v') # js_define k v rest)"

text \<open>
  The assignment \<^verbatim>\<open>o[k] = v\<close>. An existing own property keeps its place. The key
  \<^verbatim>\<open>__proto__\<close> is the accessor inherited from \<^verbatim>\<open>Object.prototype\<close>: assigning to it
  never creates an own property (a primitive value is ignored, an object becomes the
  prototype of \<^verbatim>\<open>o\<close>), so the own properties stay as they are.
\<close>

definition js_set :: "'v object \<Rightarrow> string \<Rightarrow> 'v \<Rightarrow> 'v object" where
  "js_set obj k v =
     (if k = ''__proto__'' then obj
      else case map_of obj k of
             Some old \<Rightarrow> map (\<lambda>(k', v'). if k' = k then (k', v) else (k', v')) obj
           | None \<Rightarrow> js_define k v obj)"

text \<open>
  Reading \<^verbatim>\<open>o[k]\<close> on such an object: its own property, or else the member of that
  name which every object inherits from \<^verbatim>\<open>Object.prototype\<close>, or else \<^verbatim>\<open>undefined\<close>.
\<close>

definition Object_prototype :: "string list" where
  "Object_prototype =
     [''constructor'', ''__defineGetter__'', ''__defineSetter__'', ''hasOwnProperty'',
      ''__lookupGetter__'', ''__lookupSetter__'', ''isPrototypeOf'', ''propertyIsEnumerable'',
      ''toString'', ''valueOf'', ''__proto__'', ''toLocaleString'']"

datatype 'v property = Own 'v | Inherited string | Undefined

definition js_get :: "'v object \<Rightarrow> string \<Rightarrow> 'v property" where
  "js_get obj k =
     (case map_of obj k of
        Some v \<Rightarrow> Own v
      | None \<Rightarrow> if k \<in> set Object_prototype then Inherited k else Undefined)"

text \<open>
  The values a counter can hold. A counter starts as the number 0. Adding a number to
  \<^verbatim>\<open>undefined\<close> gives \<^verbatim>\<open>NaN\<close>; adding a number to an inherited member (a function, or
  the prototype object) gives a string: the text of that member followed by the digits of
  the number. The text is not spelled out: \<open>Member k\<close> stands for the text of the member
  named \<open>k\<close>, and \<open>Append t n\<close> for \<open>t\<close> followed by the digits of \<open>n\<close>.
\<close>

datatype js_text = Member string | Append js_text nat

datatype jsval = Num nat | NaN | Text js_text

text \<open>\<^verbatim>\<open>x + n\<close> for a number \<open>n\<close>, where \<open>x\<close> has just been read from an object.\<close>

fun add_number :: "jsval property \<Rightarrow> nat \<Rightarrow> jsval" where
  "add_number (Own (Num a)) n = Num (a + n)"
| "add_number (Own NaN) n = NaN"
| "add_number (Own (Text t)) n = Text (Append t n)"
| "add_number (Inherited k) n = Text (Append (Member k) n)"
| "add_number Undefined n = NaN"

section \<open>The corpus store and the answer providers\<close>

text \<open>
  The rows of the three tables, with the columns the handlers read or write (the store
  adds \<^verbatim>\<open>id\<close> and \<^verbatim>\<open>created_at\<close> columns of its own to every row).
\<close>

record pregunta_row =
  row_id :: nat
  texto_pregunta :: string

record respuesta_row =
  id_pregunta :: nat
  modelo_llm :: string
  texto_respuesta :: string

record marca_row =
  nombre_marca :: string

text \<open>
  What a request can change or leave a trace in: the three tables, and the calls made to
  the answer providers (model and question, in the order of the calls).
\<close>

record world =
  preguntas_table :: "pregunta_row list"
  respuestas_table :: "respuesta_row list"
  marcas_table :: "marca_row list"
  llm_calls :: "(string \<times> string) list"

text \<open>
  The store client answers every operation with a pair \<^verbatim>\<open>{ data, error }\<close> and does not
  throw: a failed operation is an \<open>error\<close> that is not null. What the store does with the
  operations of one request is a parameter of the model:
  \<^item> \<open>insert_pregunta t\<close>: the error of the insertion of a question with text \<open>t\<close>, or the
    id the store gives the created row;
  \<^item> \<open>insert_respuesta r\<close>: the error of the insertion of the answer row \<open>r\<close>, if any;
  \<^item> \<open>select_marcas\<close>, \<open>select_respuestas\<close>: the error of reading the whole table, if any.
  A failed insertion leaves the table as it was.
\<close>

record store =
  insert_pregunta :: "string \<Rightarrow> string + nat"
  insert_respuesta :: "respuesta_row \<Rightarrow> string option"
  select_marcas :: "string option"
  select_respuestas :: "string option"

text \<open>
  \<^verbatim>\<open>mockLLMResponses\<close>: the table of the answer providers, one function from the question
  to the answer under each model name. A provider that fails throws.
\<close>

type_synonym llm_table = "string \<Rightarrow> (string \<Rightarrow> js_error + string) option"

text \<open>
  \<^verbatim>\<open>callLLMAPI(model, question)\<close> waits, then calls the function the table holds under
  \<open>model\<close>; calling what is not a function throws a \<^verbatim>\<open>TypeError\<close>. The handlers call
  it with the three names of \<open>models\<close> only. For a name the table does not hold, the model
  gives that \<^verbatim>\<open>TypeError\<close>; this is what the code does for every such name but the
  twelve that the table inherits from \<^verbatim>\<open>Object.prototype\<close>, which no handler passes.
\<close>

definition callLLMAPI :: "llm_table \<Rightarrow> string \<Rightarrow> string \<Rightarrow> js_error + string" where
  "callLLMAPI mockLLMResponses model question =
     (case mockLLMResponses model of
        None \<Rightarrow> Inl TypeError
      | Some respond \<Rightarrow> respond question)"

text \<open>The tables of the three iterations of the server (the second and the third agree).\<close>

definition mockLLMResponses1 :: llm_table where
  "mockLLMResponses1 =
     [''Gemini'' \<mapsto> (\<lambda>question. Inr (''Gemini response to: '' @ [CHR 0x22] @ question @ [CHR 0x22]
          @ ''. This is a sample response that might mention Nike shoes and Apple products.'')),
      ''ChatGPT'' \<mapsto> (\<lambda>question. Inr (''ChatGPT response to: '' @ [CHR 0x22] @ question @ [CHR 0x22]
          @ ''. Here's a detailed answer that could reference Adidas clothing and Samsung devices.'')),
      ''Claude'' \<mapsto> (\<lambda>question. Inr (''Claude response to: '' @ [CHR 0x22] @ question @ [CHR 0x22]
          @ ''. This comprehensive answer may include mentions of Coca-Cola products and various brands.''))]"

definition mockLLMResponses2 :: llm_table where
  "mockLLMResponses2 =
     [''Gemini'' \<mapsto> (\<lambda>question. Inr (''Gemini response to: '' @ [CHR 0x22] @ question @ [CHR 0x22])),
      ''ChatGPT'' \<mapsto> (\<lambda>question. Inr (''ChatGPT response to: '' @ [CHR 0x22] @ question @ [CHR 0x22])),
      ''Claude'' \<mapsto> (\<lambda>question. Inr (''Claude response to: '' @ [CHR 0x22] @ question @ [CHR 0x22]))]"

definition models :: "string list" where
  "models = [''Gemini'', ''ChatGPT'', ''Claude'']"

section \<open>POST /api/preguntar\<close>

text \<open>
  What a handler sends: \<open>Status code msg\<close> is \<^verbatim>\<open>res.status(code).json({ error: msg })\<close>,
  and \<open>Json body\<close> is \<^verbatim>\<open>res.json(body)\<close>, with status 200.
\<close>

datatype 'a response = Status nat string | Json 'a

text \<open>The body of a successful answer; \<open>pregunta\<close> is \<open>None\<close> when the body has no such key.\<close>

record preguntar_body =
  pregunta_id :: nat
  pregunta :: "string option"
  respuestas :: "string object"

text \<open>
  The loop over the models. The body of the \<^verbatim>\<open>try\<close> calls the provider, stores its
  answer under the model's name and inserts the answer row, whose result is not looked at;
  the \<^verbatim>\<open>catch\<close> stores the placeholder of the iteration under the model's name.
\<close>

fun preguntar_loop ::
  "(string \<Rightarrow> string) \<Rightarrow> llm_table \<Rightarrow> store \<Rightarrow> nat \<Rightarrow> string \<Rightarrow> string list \<Rightarrow>
   string object \<times> world \<Rightarrow> string object \<times> world" where
  "preguntar_loop placeholder llm db pid texto [] (responses, w) = (responses, w)"
| "preguntar_loop placeholder llm db pid texto (model # rest) (responses, w) =
     (let w1 = w\<lparr>llm_calls := llm_calls w @ [(model, texto)]\<rparr> in
      case callLLMAPI llm model texto of
        Inl error \<Rightarrow>
          preguntar_loop placeholder llm db pid texto rest
            (js_set responses model (placeholder model), w1)
      | Inr respuesta \<Rightarrow>
          (let row = \<lparr>id_pregunta = pid, modelo_llm = model, texto_respuesta = respuesta\<rparr>;
               w2 = (case insert_respuesta db row of
                       None \<Rightarrow> w1\<lparr>respuestas_table := respuestas_table w1 @ [row]\<rparr>
                     | Some error \<Rightarrow> w1)
           in preguntar_loop placeholder llm db pid texto rest
                (js_set responses model respuesta, w2)))"

text \<open>The placeholders: the template strings of the two \<^verbatim>\<open>catch\<close> blocks.\<close>

definition placeholder1 :: "string \<Rightarrow> string" where
  "placeholder1 model = ''Error getting response from '' @ model"

definition placeholder2 :: "string \<Rightarrow> string" where
  "placeholder2 model = ''Error en modelo '' @ model"

text \<open>The handler of the first iteration (\<^verbatim>\<open>src/index.js\<close>, first document).\<close>

definition preguntar1 ::
  "llm_table \<Rightarrow> store \<Rightarrow> world \<Rightarrow> string option \<Rightarrow> preguntar_body response \<times> world" where
  "preguntar1 llm db w body_texto =
     (case body_texto of
        None \<Rightarrow> (Status 400 ''texto_pregunta is required'', w)
      | Some texto \<Rightarrow>
          if texto = [] then (Status 400 ''texto_pregunta is required'', w)
          else
            (case insert_pregunta db texto of
               Inl preguntaError \<Rightarrow> (Status 500 ''Failed to save question'', w)
             | Inr pid \<Rightarrow>
                 (let w1 = w\<lparr>preguntas_table := preguntas_table w
                             @ [\<lparr>row_id = pid, texto_pregunta = texto\<rparr>]\<rparr>;
                      (responses, w2) =
                        preguntar_loop placeholder1 llm db pid texto models ([], w1)
                  in (Json \<lparr>pregunta_id = pid, pregunta = Some texto, respuestas = responses\<rparr>,
                      w2))))"

text \<open>
  The handler of the second iteration (\<^verbatim>\<open>src/index.js\<close>, second document) and of the
  third (\<^verbatim>\<open>src/unnamed/part_000\<close>), which are the same code: other messages, and a body
  without the question text.
\<close>

definition preguntar2 ::
  "llm_table \<Rightarrow> store \<Rightarrow> world \<Rightarrow> string option \<Rightarrow> preguntar_body response \<times> world" where
  "preguntar2 llm db w body_texto =
     (case body_texto of
        None \<Rightarrow> (Status 400 ''texto_pregunta is required'', w)
      | Some texto \<Rightarrow>
          if texto = [] then (Status 400 ''texto_pregunta is required'', w)
          else
            (case insert_pregunta db texto of
               Inl preguntaError \<Rightarrow> (Status 500 ''Error al guardar la pregunta'', w)
             | Inr pid \<Rightarrow>
                 (let w1 = w\<lparr>preguntas_table := preguntas_table w
                             @ [\<lparr>row_id = pid, texto_pregunta = texto\<rparr>]\<rparr>;
                      (respuestas2, w2) =
                        preguntar_loop placeholder2 llm db pid texto models ([], w1)
                  in (Json \<lparr>pregunta_id = pid, pregunta = None, respuestas = respuestas2\<rparr>,
                      w2))))"

section \<open>GET /api/dashboard-data\<close>

text \<open>The two counting objects: \<^verbatim>\<open>brandMentions\<close> and \<^verbatim>\<open>modelBrandMentions\<close>.\<close>

type_synonym counters = "jsval object \<times> jsval object object"

text \<open>\<^verbatim>\<open>xs.forEach(f)\<close> for a callback that works on a state and may throw.\<close>

fun forEach :: "('s \<Rightarrow> 'a \<Rightarrow> js_error + 's) \<Rightarrow> 'a list \<Rightarrow> 's \<Rightarrow> js_error + 's" where
  "forEach f [] s = Inr s"
| "forEach f (x # xs) s = (case f s x of Inl e \<Rightarrow> Inl e | Inr s' \<Rightarrow> forEach f xs s')"

text \<open>The first loop over the brands: a total of 0 and a fresh breakdown for each name.\<close>

definition init_marca :: "counters \<Rightarrow> marca_row \<Rightarrow> js_error + counters" where
  "init_marca c marca =
     (let (bm, mbm) = c in
      Inr (js_set bm (nombre_marca marca) (Num 0),
           js_set mbm (nombre_marca marca)
             [(''Gemini'', Num 0), (''ChatGPT'', Num 0), (''Claude'', Num 0)]))"

text \<open>
  \<^verbatim>\<open>o[k][modelo] += n\<close> changes the object that \<^verbatim>\<open>o\<close> holds under \<open>k\<close> in place.
\<close>

definition in_place :: "'v object \<Rightarrow> string \<Rightarrow> ('v \<Rightarrow> 'v) \<Rightarrow> 'v object" where
  "in_place obj k f = map (\<lambda>(k', v). if k' = k then (k', f v) else (k', v)) obj"

text \<open>
  The body of the inner loop, for one answer (its text in lower case, its model) and one
  brand. Two cases lie outside what the object model above covers:
  \<^item> The brand named \<^verbatim>\<open>__proto__\<close>: \<^verbatim>\<open>modelBrandMentions\<close> has no own property of that
    name; the first loop made the breakdown of that brand its prototype, and the update
    goes to that object, which no own property of the result holds.
  \<^item> Any other name with no breakdown: the first loop gives every brand one, so the case is
    not reached from the handler (\<open>aggregate_throws_what_host_throws\<close> below); it is
    modelled as the \<^verbatim>\<open>TypeError\<close> of reading a property of \<^verbatim>\<open>undefined\<close>.
  In the first iteration the breakdown is updated only if it answers the model's name
  with something other than \<^verbatim>\<open>undefined\<close>.
\<close>

definition count_marca1 ::
  "regexp_host \<Rightarrow> string \<Rightarrow> string \<Rightarrow> counters \<Rightarrow> marca_row \<Rightarrow> js_error + counters" where
  "count_marca1 host texto modelo c marca =
     (let (bm, mbm) = c;
          brandName = toLowerCase (nombre_marca marca) in
      case match_length host texto brandName of
        Inl error \<Rightarrow> Inl error
      | Inr mentions \<Rightarrow>
          if mentions > 0 then
            (let bm' = js_set bm (nombre_marca marca)
                         (add_number (js_get bm (nombre_marca marca)) mentions) in
             case map_of mbm (nombre_marca marca) of
               Some breakdown \<Rightarrow>
                 if js_get breakdown modelo \<noteq> Undefined
                 then Inr (bm', in_place mbm (nombre_marca marca)
                             (\<lambda>b. js_set b modelo (add_number (js_get b modelo) mentions)))
                 else Inr (bm', mbm)
             | None \<Rightarrow>
                 if nombre_marca marca = ''__proto__'' then Inr (bm', mbm) else Inl TypeError)
          else Inr (bm, mbm))"

text \<open>The second and third iterations update the breakdown without the test.\<close>

definition count_marca2 ::
  "regexp_host \<Rightarrow> string \<Rightarrow> string \<Rightarrow> counters \<Rightarrow> marca_row \<Rightarrow> js_error + counters" where
  "count_marca2 host texto modelo c marca =
     (let (bm, mbm) = c;
          nombre = toLowerCase (nombre_marca marca) in
      case match_length host texto nombre of
        Inl error \<Rightarrow> Inl error
      | Inr count \<Rightarrow>
          if count > 0 then
            (let bm' = js_set bm (nombre_marca marca)
                         (add_number (js_get bm (nombre_marca marca)) count) in
             case map_of mbm (nombre_marca marca) of
               Some breakdown \<Rightarrow>
                 Inr (bm', in_place mbm (nombre_marca marca)
                        (\<lambda>b. js_set b modelo (add_number (js_get b modelo) count)))
             | None \<Rightarrow>
                 if nombre_marca marca = ''__proto__'' then Inr (bm', mbm) else Inl TypeError)
          else Inr (bm, mbm))"

text \<open>The body of the outer loop: the text is put in lower case once for each answer.\<close>

definition count_respuesta ::
  "(string \<Rightarrow> string \<Rightarrow> counters \<Rightarrow> marca_row \<Rightarrow> js_error + counters) \<Rightarrow>
   marca_row list \<Rightarrow> counters \<Rightarrow> respuesta_row \<Rightarrow> js_error + counters" where
  "count_respuesta count_marca marcas c respuesta =
     (let texto = toLowerCase (texto_respuesta respuesta);
          modelo = modelo_llm respuesta
      in forEach (count_marca texto modelo) marcas c)"

record pieChart =
  labels :: "string list"
  data :: "jsval list"

record dashboard_body =
  brandMentions :: "jsval object"
  modelBrandMentions :: "jsval object object"
  pieChartData :: pieChart
  totalResponses :: nat
  totalBrands :: nat

text \<open>
  From the two fetched tables to the body of the answer, or to the exception that leaves
  the \<^verbatim>\<open>try\<close> block. Both counting objects are created anew by every call.
\<close>

definition aggregate ::
  "(string \<Rightarrow> string \<Rightarrow> counters \<Rightarrow> marca_row \<Rightarrow> js_error + counters) \<Rightarrow>
   marca_row list \<Rightarrow> respuesta_row list \<Rightarrow> js_error + dashboard_body" where
  "aggregate count_marca marcas respuestas' =
     (case forEach init_marca marcas ([], []) of
        Inl error \<Rightarrow> Inl error
      | Inr c0 \<Rightarrow>
          (case forEach (count_respuesta count_marca marcas) respuestas' c0 of
             Inl error \<Rightarrow> Inl error
           | Inr (bm, mbm) \<Rightarrow>
               Inr \<lparr>brandMentions = bm,
                    modelBrandMentions = mbm,
                    pieChartData = \<lparr>labels = map fst bm, data = map snd bm\<rparr>,
                    totalResponses = length respuestas',
                    totalBrands = length marcas\<rparr>))"

text \<open>The handler of the first iteration: each fetch is checked.\<close>

definition dashboard_data1 ::
  "regexp_host \<Rightarrow> store \<Rightarrow> world \<Rightarrow> dashboard_body response \<times> world" where
  "dashboard_data1 host db w =
     (case select_marcas db of
        Some marcasError \<Rightarrow> (Status 500 ''Failed to fetch brands'', w)
      | None \<Rightarrow>
          (case select_respuestas db of
             Some respuestasError \<Rightarrow> (Status 500 ''Failed to fetch responses'', w)
           | None \<Rightarrow>
               (case aggregate (count_marca1 host) (marcas_table w) (respuestas_table w) of
                  Inl error \<Rightarrow> (Status 500 ''Internal server error'', w)
                | Inr body \<Rightarrow> (Json body, w))))"

text \<open>
  The handler of the second and third iterations, which differ in the message \<open>msg\<close> of
  the \<^verbatim>\<open>catch\<close> only. The fetches are not checked: a failed fetch leaves \<^verbatim>\<open>null\<close>
  for the table, and \<^verbatim>\<open>forEach\<close> on it throws.
\<close>

definition dashboard_data2 ::
  "string \<Rightarrow> regexp_host \<Rightarrow> store \<Rightarrow> world \<Rightarrow> dashboard_body response \<times> world" where
  "dashboard_data2 msg host db w =
     (case select_marcas db of
        Some marcasError \<Rightarrow> (Status 500 msg, w)
      | None \<Rightarrow>
          (case select_respuestas db of
             Some respuestasError \<Rightarrow> (Status 500 msg, w)
           | None \<Rightarrow>
               (case aggregate (count_marca2 host) (marcas_table w) (respuestas_table w) of
                  Inl error \<Rightarrow> (Status 500 msg, w)
                | Inr body \<Rightarrow> (Json body, w))))"

section \<open>Notions used to state the properties\<close>

text \<open>Whether the provider of a model answers the question, and the entry the loop then
  leaves under the model's name.\<close>

definition generated :: "llm_table \<Rightarrow> string \<Rightarrow> string \<Rightarrow> bool" where
  "generated llm texto model =
     (case callLLMAPI llm model texto of Inl error \<Rightarrow> False | Inr respuesta \<Rightarrow> True)"

definition entry :: "(string \<Rightarrow> string) \<Rightarrow> llm_table \<Rightarrow> string \<Rightarrow> string \<Rightarrow> string" where
  "entry placeholder llm texto model =
     (case callLLMAPI llm model texto of
        Inl error \<Rightarrow> placeholder model
      | Inr respuesta \<Rightarrow> respuesta)"

text \<open>The answer rows whose insertion one request issues: one for each model that answers.\<close>

fun answer_rows :: "llm_table \<Rightarrow> nat \<Rightarrow> string \<Rightarrow> string list \<Rightarrow> respuesta_row list" where
  "answer_rows llm pid texto [] = []"
| "answer_rows llm pid texto (model # rest) =
     (case callLLMAPI llm model texto of
        Inl error \<Rightarrow> answer_rows llm pid texto rest
      | Inr respuesta \<Rightarrow>
          \<lparr>id_pregunta = pid, modelo_llm = model, texto_respuesta = respuesta\<rparr>
            # answer_rows llm pid texto rest)"

text \<open>
  The mention count in the spec's words: the number of occurrences of a literal string in a
  text that do not overlap, found from the left, each occurrence taking its span before
  the search goes on. (The spec counts names that are not empty; for the empty string the
  definition gives 0.)
\<close>

fun literal_occurrences :: "string \<Rightarrow> string \<Rightarrow> nat" where
  "literal_occurrences needle [] = 0"
| "literal_occurrences needle (c # cs) =
     (if needle \<noteq> [] \<and> take (length needle) (c # cs) = needle
      then 1 + literal_occurrences needle (drop (length needle - 1) cs)
      else literal_occurrences needle cs)"

text \<open>The sum of the entries of a breakdown, which exists when every entry is a number.\<close>

fun numbers_sum :: "jsval list \<Rightarrow> nat option" where
  "numbers_sum [] = Some 0"
| "numbers_sum (Num n # vs) = map_option (\<lambda>s. n + s) (numbers_sum vs)"
| "numbers_sum (v # vs) = None"

text \<open>
  The state of the two counting objects in the first iteration, for a relation \<open>R\<close>
  between the sum of a breakdown and the total: every breakdown holds a number under each
  of the three model names and nothing else, its brand has a number as total, and \<open>R\<close>
  holds between the sum of the three and the total.
\<close>

definition counted :: "(nat \<Rightarrow> nat \<Rightarrow> bool) \<Rightarrow> counters \<Rightarrow> bool" where
  "counted R c =
     (case c of (bm, mbm) \<Rightarrow>
        map_of mbm ''__proto__'' = None
        \<and> (\<forall>name b. map_of mbm name = Some b \<longrightarrow>
              (\<exists>x y z t. b = [(''Gemini'', Num x), (''ChatGPT'', Num y), (''Claude'', Num z)]
                 \<and> map_of bm name = Some (Num t) \<and> R (x + y + z) t)))"

text \<open>Every brand of the table, but one named \<^verbatim>\<open>__proto__\<close>, has its breakdown.\<close>

definition has_breakdowns :: "marca_row list \<Rightarrow> counters \<Rightarrow> bool" where
  "has_breakdowns marcas c \<longleftrightarrow>
     (\<forall>marca \<in> set marcas. nombre_marca marca = ''__proto__'' \<or> map_of (snd c) (nombre_marca marca) \<noteq> None)"

section \<open>Sample data\<close>

text \<open>An empty corpus, and stores and providers that work or fail in one place.\<close>

definition world0 :: world where
  "world0 = \<lparr>preguntas_table = [], respuestas_table = [], marcas_table = [], llm_calls = []\<rparr>"

definition store_ok :: store where
  "store_ok = \<lparr>insert_pregunta = (\<lambda>texto. Inr 1), insert_respuesta = (\<lambda>row. None),
               select_marcas = None, select_respuestas = None\<rparr>"

definition store_down :: store where
  "store_down = \<lparr>insert_pregunta = (\<lambda>texto. Inl ''connection refused''),
                 insert_respuesta = (\<lambda>row. Some ''connection refused''),
                 select_marcas = Some ''connection refused'',
                 select_respuestas = Some ''connection refused''\<rparr>"

text \<open>A store that takes the question and refuses the answer row of Gemini.\<close>

definition store_flaky :: store where
  "store_flaky = \<lparr>insert_pregunta = (\<lambda>texto. Inr 1),
                  insert_respuesta = (\<lambda>row. if modelo_llm row = ''Gemini'' then Some ''timeout'' else None),
                  select_marcas = None, select_respuestas = None\<rparr>"

text \<open>The providers of the first iteration, with a ChatGPT that throws.\<close>

definition llm_chatgpt_down :: llm_table where
  "llm_chatgpt_down = mockLLMResponses1(''ChatGPT'' \<mapsto> (\<lambda>question. Inl (Thrown ''503'')))"

text \<open>An expression engine that throws on every pattern outside the modelled fragment.\<close>

definition host_throws :: regexp_host where
  "host_throws pattern texto = Inl SyntaxError"

text \<open>A corpus with one brand, one question and one answer.\<close>

definition world_nike :: world where
  "world_nike =
     \<lparr>preguntas_table = [\<lparr>row_id = 1, texto_pregunta = ''Which shoes?''\<rparr>],
      respuestas_table =
        [\<lparr>id_pregunta = 1, modelo_llm = ''Gemini'', texto_respuesta = ''Nike, or NIKE again''\<rparr>],
      marcas_table = [\<lparr>nombre_marca = ''Nike''\<rparr>],
      llm_calls = []\<rparr>"

section \<open>Question intake: validation and the question row\<close>

text \<open>
  C5. An empty or missing question text is answered with the validation error (status 400,
  \<^verbatim>\<open>texto_pregunta is required\<close>) and nothing else happens: the world after the request is
  the world before it, so no question row and no answer row is written and no provider is
  called. This holds for the three iterations.
\<close>

theorem empty_question_rejected:
  "preguntar1 llm db w None = (Status 400 ''texto_pregunta is required'', w)
   \<and> preguntar1 llm db w (Some []) = (Status 400 ''texto_pregunta is required'', w)
   \<and> preguntar2 llm db w None = (Status 400 ''texto_pregunta is required'', w)
   \<and> preguntar2 llm db w (Some []) = (Status 400 ''texto_pregunta is required'', w)"
  by (simp add: preguntar1_def preguntar2_def)

text \<open>
  C6. When the store refuses the question row, the request is answered with the storage
  error (status 500) and the world is left as it was: no provider is called and no answer
  row is written. This holds for the three iterations.
\<close>

theorem question_insert_failure_stops:
  assumes "texto \<noteq> []" and "insert_pregunta db texto = Inl e"
  shows "preguntar1 llm db w (Some texto) = (Status 500 ''Failed to save question'', w)
         \<and> preguntar2 llm db w (Some texto) = (Status 500 ''Error al guardar la pregunta'', w)"
  using assms by (simp add: preguntar1_def preguntar2_def)

theorem question_insert_failure_stops_witness:
  "''Which shoes?'' \<noteq> [] \<and> insert_pregunta store_down ''Which shoes?'' = Inl ''connection refused''
   \<and> preguntar1 mockLLMResponses1 store_down world0 (Some ''Which shoes?'')
       = (Status 500 ''Failed to save question'', world0)
   \<and> preguntar2 mockLLMResponses2 store_down world0 (Some ''Which shoes?'')
       = (Status 500 ''Error al guardar la pregunta'', world0)"
  using question_insert_failure_stops
    [where texto = "''Which shoes?''" and db = store_down and e = "''connection refused''"
       and w = world0]
  by (simp add: store_down_def)

section \<open>Question intake: the loop over the providers\<close>

text \<open>What the loop leaves in the answer object, and what it does to the world.\<close>

lemma loop_responses:
  "fst (preguntar_loop ph llm db pid t ms (R, w))
   = foldl (\<lambda>R m. js_set R m (entry ph llm t m)) R ms"
  by (induction ms arbitrary: R w) (auto simp: entry_def Let_def split: sum.splits option.splits)

lemma loop_world:
  "snd (preguntar_loop ph llm db pid t ms (R, w)) =
     w\<lparr>llm_calls := llm_calls w @ map (\<lambda>m. (m, t)) ms,
       respuestas_table := respuestas_table w
          @ filter (\<lambda>row. insert_respuesta db row = None) (answer_rows llm pid t ms)\<rparr>"
  by (induction ms arbitrary: R w) (auto simp: Let_def split: sum.splits option.splits)

lemma length_answer_rows:
  "length (answer_rows llm pid t ms) = length (filter (generated llm t) ms)"
  by (induction ms) (auto simp: generated_def split: sum.splits)

lemma answer_rows_id: "row \<in> set (answer_rows llm pid t ms) \<Longrightarrow> id_pregunta row = pid"
  by (induction ms) (auto split: sum.splits)

lemma answer_rows_models:
  "map modelo_llm (answer_rows llm pid t ms) = filter (generated llm t) ms"
  by (induction ms) (auto simp: generated_def split: sum.splits)

lemma answer_rows_text:
  "row \<in> set (answer_rows llm pid t ms) \<Longrightarrow>
   callLLMAPI llm (modelo_llm row) t = Inr (texto_respuesta row)"
  by (induction ms) (auto split: sum.splits)

lemma generated_count:
  "length (filter (generated llm t) ms)
   = length ms - length (filter (\<lambda>m. \<not> generated llm t m) ms)"
  using sum_length_filter_compl [of "generated llm t" ms] by simp

lemma models_responses:
  "foldl (\<lambda>R m. js_set R m (f m)) [] models =
     [(''Gemini'', f ''Gemini''), (''ChatGPT'', f ''ChatGPT''), (''Claude'', f ''Claude'')]"
  by (simp add: models_def js_set_def array_index_def digit_def)

lemma distinct_models: "distinct models"
  by (simp add: models_def)

lemma map_of_entries:
  "distinct ms \<Longrightarrow> m \<in> set ms \<Longrightarrow> map_of (map (\<lambda>m. (m, f m)) ms) m = Some (f m)"
  by (induction ms) auto

lemma entries_generated:
  "length (filter (\<lambda>(m, v). case callLLMAPI llm m t of Inr r \<Rightarrow> v = r | Inl e \<Rightarrow> False)
             (map (\<lambda>m. (m, entry ph llm t m)) ms))
   = length (filter (generated llm t) ms)"
  by (induction ms) (auto simp: entry_def generated_def split: sum.splits)

lemma entries_placeholder:
  "length (filter (\<lambda>(m, v). case callLLMAPI llm m t of Inr r \<Rightarrow> False | Inl e \<Rightarrow> v = ph m)
             (map (\<lambda>m. (m, entry ph llm t m)) ms))
   = length (filter (\<lambda>m. \<not> generated llm t m) ms)"
  by (induction ms) (auto simp: entry_def generated_def split: sum.splits)

text \<open>The whole request, once the text is not empty and the store has taken the question.\<close>

lemma preguntar1_accepted:
  assumes "texto \<noteq> []" and "insert_pregunta db texto = Inr pid"
  shows "preguntar1 llm db w (Some texto) =
     (Json \<lparr>pregunta_id = pid, pregunta = Some texto,
            respuestas = map (\<lambda>m. (m, entry placeholder1 llm texto m)) models\<rparr>,
      w\<lparr>preguntas_table := preguntas_table w @ [\<lparr>row_id = pid, texto_pregunta = texto\<rparr>],
        llm_calls := llm_calls w @ map (\<lambda>m. (m, texto)) models,
        respuestas_table := respuestas_table w
          @ filter (\<lambda>row. insert_respuesta db row = None) (answer_rows llm pid texto models)\<rparr>)"
proof -
  let ?w1 = "w\<lparr>preguntas_table := preguntas_table w @ [\<lparr>row_id = pid, texto_pregunta = texto\<rparr>]\<rparr>"
  let ?loop = "preguntar_loop placeholder1 llm db pid texto models ([], ?w1)"
  have r: "fst ?loop = map (\<lambda>m. (m, entry placeholder1 llm texto m)) models"
    by (simp only: loop_responses models_responses) (simp add: models_def)
  have s: "snd ?loop = ?w1\<lparr>llm_calls := llm_calls ?w1 @ map (\<lambda>m. (m, texto)) models,
       respuestas_table := respuestas_table ?w1
          @ filter (\<lambda>row. insert_respuesta db row = None) (answer_rows llm pid texto models)\<rparr>"
    by (rule loop_world)
  have "preguntar1 llm db w (Some texto) =
      (Json \<lparr>pregunta_id = pid, pregunta = Some texto, respuestas = fst ?loop\<rparr>, snd ?loop)"
    using assms by (simp add: preguntar1_def case_prod_unfold Let_def)
  then show ?thesis by (simp add: r s)
qed

lemma preguntar2_accepted:
  assumes "texto \<noteq> []" and "insert_pregunta db texto = Inr pid"
  shows "preguntar2 llm db w (Some texto) =
     (Json \<lparr>pregunta_id = pid, pregunta = None,
            respuestas = map (\<lambda>m. (m, entry placeholder2 llm texto m)) models\<rparr>,
      w\<lparr>preguntas_table := preguntas_table w @ [\<lparr>row_id = pid, texto_pregunta = texto\<rparr>],
        llm_calls := llm_calls w @ map (\<lambda>m. (m, texto)) models,
        respuestas_table := respuestas_table w
          @ filter (\<lambda>row. insert_respuesta db row = None) (answer_rows llm pid texto models)\<rparr>)"
proof -
  let ?w1 = "w\<lparr>preguntas_table := preguntas_table w @ [\<lparr>row_id = pid, texto_pregunta = texto\<rparr>]\<rparr>"
  let ?loop = "preguntar_loop placeholder2 llm db pid texto models ([], ?w1)"
  have r: "fst ?loop = map (\<lambda>m. (m, entry placeholder2 llm texto m)) models"
    by (simp only: loop_responses models_responses) (simp add: models_def)
  have s: "snd ?loop = ?w1\<lparr>llm_calls := llm_calls ?w1 @ map (\<lambda>m. (m, texto)) models,
       respuestas_table := respuestas_table ?w1
          @ filter (\<lambda>row. insert_respuesta db row = None) (answer_rows llm pid texto models)\<rparr>"
    by (rule loop_world)
  have "preguntar2 llm db w (Some texto) =
      (Json \<lparr>pregunta_id = pid, pregunta = None, respuestas = fst ?loop\<rparr>, snd ?loop)"
    using assms by (simp add: preguntar2_def case_prod_unfold Let_def)
  then show ?thesis by (simp add: r s)
qed

text \<open>
  C3. The claim is that the answer to a non-empty question holds the id of the question,
  the question text and one entry for each configured provider. The second and third
  iterations send \<^verbatim>\<open>{ pregunta_id, respuestas }\<close>: the id and the three entries are there,
  the question text is not (first conjunct). The first iteration, on the same question,
  sends the text as well (second conjunct).
\<close>

theorem question_text_left_out:
  "(case fst (preguntar2 mockLLMResponses2 store_ok world0 (Some ''Which shoes?'')) of
      Json body \<Rightarrow>
        pregunta_id body = 1 \<and> pregunta body = None \<and> map fst (respuestas body) = models
    | Status code msg \<Rightarrow> False)
   \<and> (case fst (preguntar1 mockLLMResponses1 store_ok world0 (Some ''Which shoes?'')) of
        Json body \<Rightarrow>
          pregunta_id body = 1 \<and> pregunta body = Some ''Which shoes?''
          \<and> map fst (respuestas body) = models
      | Status code msg \<Rightarrow> False)"
  by code_simp

text \<open>
  What the answers hold in general, once the store has taken the question: the id of the
  question and one entry for each of the three models, in their order, which is the text
  the provider generated or else the placeholder naming the model, however many providers
  fail; and the question text in the first iteration only.
\<close>

lemma intake_response:
  assumes "texto \<noteq> []" and "insert_pregunta db texto = Inr pid"
  shows "(\<exists>body w'. preguntar1 llm db w (Some texto) = (Json body, w')
            \<and> pregunta_id body = pid \<and> pregunta body = Some texto
            \<and> map fst (respuestas body) = models
            \<and> (\<forall>model \<in> set models. map_of (respuestas body) model =
                  Some (case callLLMAPI llm model texto of
                          Inr respuesta \<Rightarrow> respuesta
                        | Inl error \<Rightarrow> ''Error getting response from '' @ model)))
       \<and> (\<exists>body w'. preguntar2 llm db w (Some texto) = (Json body, w')
            \<and> pregunta_id body = pid \<and> pregunta body = None
            \<and> map fst (respuestas body) = models
            \<and> (\<forall>model \<in> set models. map_of (respuestas body) model =
                  Some (case callLLMAPI llm model texto of
                          Inr respuesta \<Rightarrow> respuesta
                        | Inl error \<Rightarrow> ''Error en modelo '' @ model)))"
proof (intro conjI)
  show "\<exists>body w'. preguntar1 llm db w (Some texto) = (Json body, w')
            \<and> pregunta_id body = pid \<and> pregunta body = Some texto
            \<and> map fst (respuestas body) = models
            \<and> (\<forall>model \<in> set models. map_of (respuestas body) model =
                  Some (case callLLMAPI llm model texto of
                          Inr respuesta \<Rightarrow> respuesta
                        | Inl error \<Rightarrow> ''Error getting response from '' @ model))"
    unfolding preguntar1_accepted [OF assms]
    by (auto simp: comp_def map_of_entries [OF distinct_models] entry_def placeholder1_def placeholder2_def split: sum.splits)
  show "\<exists>body w'. preguntar2 llm db w (Some texto) = (Json body, w')
            \<and> pregunta_id body = pid \<and> pregunta body = None
            \<and> map fst (respuestas body) = models
            \<and> (\<forall>model \<in> set models. map_of (respuestas body) model =
                  Some (case callLLMAPI llm model texto of
                          Inr respuesta \<Rightarrow> respuesta
                        | Inl error \<Rightarrow> ''Error en modelo '' @ model))"
    unfolding preguntar2_accepted [OF assms]
    by (auto simp: comp_def map_of_entries [OF distinct_models] entry_def placeholder1_def placeholder2_def split: sum.splits)
qed

text \<open>
  C4, as amended. When the store has taken the question and exactly \<open>k\<close> of the three
  providers fail, the answer object has three entries, of which \<open>3 - k\<close> are the text
  their provider generated and \<open>k\<close> are placeholders. The insertion of \<open>3 - k\<close> answer
  rows is issued: the rows \<open>answer_rows llm pid texto models\<close>, one for each provider that
  generated, with the id of the question, the name of the model and the generated text.
  The rows added to the table are exactly those of them that the store takes, in that
  order; they are \<open>3 - k\<close> when the store refuses none.
\<close>

theorem partial_failure_accounting:
  assumes "texto \<noteq> []" and "insert_pregunta db texto = Inr pid"
    and "length (filter (\<lambda>model. \<not> generated llm texto model) models) = k"
  shows "(\<exists>body w'. preguntar1 llm db w (Some texto) = (Json body, w')
            \<and> length (respuestas body) = length models
            \<and> length (filter (\<lambda>(model, v). case callLLMAPI llm model texto of
                                 Inr respuesta \<Rightarrow> v = respuesta | Inl error \<Rightarrow> False)
                         (respuestas body)) = length models - k
            \<and> length (filter (\<lambda>(model, v). case callLLMAPI llm model texto of
                                 Inr respuesta \<Rightarrow> False | Inl error \<Rightarrow> v = placeholder1 model)
                         (respuestas body)) = k
            \<and> respuestas_table w' = respuestas_table w
                 @ filter (\<lambda>row. insert_respuesta db row = None)
                     (answer_rows llm pid texto models)
            \<and> ((\<forall>row \<in> set (answer_rows llm pid texto models). insert_respuesta db row = None)
                 \<longrightarrow> length (respuestas_table w')
                       = length (respuestas_table w) + (length models - k)))
       \<and> (\<exists>body w'. preguntar2 llm db w (Some texto) = (Json body, w')
            \<and> length (respuestas body) = length models
            \<and> length (filter (\<lambda>(model, v). case callLLMAPI llm model texto of
                                 Inr respuesta \<Rightarrow> v = respuesta | Inl error \<Rightarrow> False)
                         (respuestas body)) = length models - k
            \<and> length (filter (\<lambda>(model, v). case callLLMAPI llm model texto of
                                 Inr respuesta \<Rightarrow> False | Inl error \<Rightarrow> v = placeholder2 model)
                         (respuestas body)) = k
            \<and> respuestas_table w' = respuestas_table w
                 @ filter (\<lambda>row. insert_respuesta db row = None)
                     (answer_rows llm pid texto models)
            \<and> ((\<forall>row \<in> set (answer_rows llm pid texto models). insert_respuesta db row = None)
                 \<longrightarrow> length (respuestas_table w')
                       = length (respuestas_table w) + (length models - k)))
       \<and> length (answer_rows llm pid texto models) = length models - k
       \<and> (\<forall>row \<in> set (answer_rows llm pid texto models). id_pregunta row = pid)
       \<and> map modelo_llm (answer_rows llm pid texto models) = filter (generated llm texto) models
       \<and> (\<forall>row \<in> set (answer_rows llm pid texto models).
             callLLMAPI llm (modelo_llm row) texto = Inr (texto_respuesta row))"
proof -
  let ?issued = "answer_rows llm pid texto models"
  let ?kept = "filter (\<lambda>row. insert_respuesta db row = None) ?issued"
  have n: "length ?issued = length models - k"
    using assms(3) by (simp add: length_answer_rows generated_count)
  have i: "\<forall>row \<in> set ?issued. id_pregunta row = pid"
    by (simp add: answer_rows_id)
  have m: "map modelo_llm ?issued = filter (generated llm texto) models"
    by (rule answer_rows_models)
  have t: "\<forall>row \<in> set ?issued. callLLMAPI llm (modelo_llm row) texto = Inr (texto_respuesta row)"
    by (simp add: answer_rows_text)
  have g: "length (filter (generated llm texto) models) = length models - k"
    using assms(3) by (simp add: generated_count)
  have a: "(\<forall>row \<in> set ?issued. insert_respuesta db row = None) \<longrightarrow> ?kept = ?issued"
    by simp
  let ?w' = "w\<lparr>preguntas_table := preguntas_table w @ [\<lparr>row_id = pid, texto_pregunta = texto\<rparr>],
        llm_calls := llm_calls w @ map (\<lambda>m. (m, texto)) models,
        respuestas_table := respuestas_table w @ ?kept\<rparr>"
  let ?body1 = "\<lparr>pregunta_id = pid, pregunta = Some texto,
            respuestas = map (\<lambda>m. (m, entry placeholder1 llm texto m)) models\<rparr>"
  let ?body2 = "\<lparr>pregunta_id = pid, pregunta = None,
            respuestas = map (\<lambda>m. (m, entry placeholder2 llm texto m)) models\<rparr>"
  have p1: "\<exists>body w'. (Json ?body1, ?w') = (Json body, w')
            \<and> length (respuestas body) = length models
            \<and> length (filter (\<lambda>(model, v). case callLLMAPI llm model texto of
                                 Inr respuesta \<Rightarrow> v = respuesta | Inl error \<Rightarrow> False)
                         (respuestas body)) = length models - k
            \<and> length (filter (\<lambda>(model, v). case callLLMAPI llm model texto of
                                 Inr respuesta \<Rightarrow> False | Inl error \<Rightarrow> v = placeholder1 model)
                         (respuestas body)) = k
            \<and> respuestas_table w' = respuestas_table w @ ?kept
            \<and> ((\<forall>row \<in> set ?issued. insert_respuesta db row = None)
                 \<longrightarrow> length (respuestas_table w')
                       = length (respuestas_table w) + (length models - k))"
    using entries_generated [where llm = llm and t = texto and ph = placeholder1 and ms = models]
      entries_placeholder [where llm = llm and t = texto and ph = placeholder1 and ms = models]
      g n a assms(3)
    by (intro exI [of _ ?body1] exI [of _ ?w']) simp
  have p2: "\<exists>body w'. (Json ?body2, ?w') = (Json body, w')
            \<and> length (respuestas body) = length models
            \<and> length (filter (\<lambda>(model, v). case callLLMAPI llm model texto of
                                 Inr respuesta \<Rightarrow> v = respuesta | Inl error \<Rightarrow> False)
                         (respuestas body)) = length models - k
            \<and> length (filter (\<lambda>(model, v). case callLLMAPI llm model texto of
                                 Inr respuesta \<Rightarrow> False | Inl error \<Rightarrow> v = placeholder2 model)
                         (respuestas body)) = k
            \<and> respuestas_table w' = respuestas_table w @ ?kept
            \<and> ((\<forall>row \<in> set ?issued. insert_respuesta db row = None)
                 \<longrightarrow> length (respuestas_table w')
                       = length (respuestas_table w) + (length models - k))"
    using entries_generated [where llm = llm and t = texto and ph = placeholder2 and ms = models]
      entries_placeholder [where llm = llm and t = texto and ph = placeholder2 and ms = models]
      g n a assms(3)
    by (intro exI [of _ ?body2] exI [of _ ?w']) simp
  show ?thesis
    unfolding preguntar1_accepted [OF assms(1,2)] preguntar2_accepted [OF assms(1,2)]
    using p1 p2 n i m t by (intro conjI)
qed

theorem partial_failure_accounting_witness:
  "''Which shoes?'' \<noteq> [] \<and> insert_pregunta store_flaky ''Which shoes?'' = Inr 1
   \<and> length (filter (\<lambda>model. \<not> generated llm_chatgpt_down ''Which shoes?'' model) models) = 1
   \<and> (\<exists>body w'.
          preguntar1 llm_chatgpt_down store_flaky world0 (Some ''Which shoes?'') = (Json body, w')
            \<and> length (respuestas body) = length models
            \<and> length (filter (\<lambda>(model, v). case callLLMAPI llm_chatgpt_down model ''Which shoes?'' of
                                 Inr respuesta \<Rightarrow> v = respuesta | Inl error \<Rightarrow> False)
                         (respuestas body)) = length models - 1
            \<and> length (filter (\<lambda>(model, v). case callLLMAPI llm_chatgpt_down model ''Which shoes?'' of
                                 Inr respuesta \<Rightarrow> False | Inl error \<Rightarrow> v = placeholder1 model)
                         (respuestas body)) = 1
            \<and> respuestas_table w' = respuestas_table world0
                 @ filter (\<lambda>row. insert_respuesta store_flaky row = None)
                     (answer_rows llm_chatgpt_down 1 ''Which shoes?'' models))
   \<and> length (answer_rows llm_chatgpt_down 1 ''Which shoes?'' models) = length models - 1
   \<and> map modelo_llm (answer_rows llm_chatgpt_down 1 ''Which shoes?'' models) = [''Gemini'', ''Claude'']
   \<and> map modelo_llm (respuestas_table
         (snd (preguntar1 llm_chatgpt_down store_flaky world0 (Some ''Which shoes?'')))) = [''Claude'']
   \<and> list_all (\<lambda>row. insert_respuesta store_ok row = None)
         (answer_rows llm_chatgpt_down 1 ''Which shoes?'' models)
   \<and> map modelo_llm (respuestas_table
         (snd (preguntar1 llm_chatgpt_down store_ok world0 (Some ''Which shoes?''))))
       = [''Gemini'', ''Claude'']"
proof -
  have h1: "''Which shoes?'' \<noteq> []" by simp
  have h2: "insert_pregunta store_flaky ''Which shoes?'' = Inr 1" by (simp add: store_flaky_def)
  have h3: "length (filter (\<lambda>model. \<not> generated llm_chatgpt_down ''Which shoes?'' model) models) = 1"
    by code_simp
  have r: "map modelo_llm (answer_rows llm_chatgpt_down 1 ''Which shoes?'' models) = [''Gemini'', ''Claude'']"
    by code_simp
  have c: "map modelo_llm (respuestas_table
         (snd (preguntar1 llm_chatgpt_down store_flaky world0 (Some ''Which shoes?'')))) = [''Claude'']"
    by code_simp
  have a: "list_all (\<lambda>row. insert_respuesta store_ok row = None)
         (answer_rows llm_chatgpt_down 1 ''Which shoes?'' models)"
    by (simp add: store_ok_def list_all_iff)
  have d: "map modelo_llm (respuestas_table
         (snd (preguntar1 llm_chatgpt_down store_ok world0 (Some ''Which shoes?''))))
       = [''Gemini'', ''Claude'']"
    by code_simp
  show ?thesis
    using h1 h2 h3 r c a d partial_failure_accounting [OF h1 h2 h3, of world0] by blast
qed

text \<open>
  C4 as stated fails when the store refuses an answer row: here no provider fails, the
  request succeeds, and two answers are stored, not three.
\<close>

theorem partial_failure_accounting_counterexample:
  "length (filter (\<lambda>model. \<not> generated mockLLMResponses1 ''Which shoes?'' model) models) = 0
   \<and> fst (preguntar1 mockLLMResponses1 store_flaky world0 (Some ''Which shoes?'')) \<noteq> Status 500 ''Failed to save question''
   \<and> map modelo_llm (respuestas_table (snd (preguntar1 mockLLMResponses1 store_flaky world0 (Some ''Which shoes?''))))
       = [''ChatGPT'', ''Claude'']"
  by code_simp

text \<open>
  C9. When the store has taken the question and the provider of a model generates a text,
  the request is answered with status 200 and the answer object holds that text under
  the model's name; and what the store does with the answer rows changes nothing in the
  response: replacing \<open>insert_respuesta\<close> by any other behaviour \<open>refuse\<close> gives the same
  response. This holds for the three iterations.
\<close>

theorem generated_text_returned:
  assumes "texto \<noteq> []" and "insert_pregunta db texto = Inr pid"
    and "model \<in> set models" and "callLLMAPI llm model texto = Inr respuesta"
  shows "(\<exists>body w'. preguntar1 llm db w (Some texto) = (Json body, w')
            \<and> map_of (respuestas body) model = Some respuesta)
       \<and> fst (preguntar1 llm (db\<lparr>insert_respuesta := refuse\<rparr>) w (Some texto))
           = fst (preguntar1 llm db w (Some texto))
       \<and> (\<exists>body w'. preguntar2 llm db w (Some texto) = (Json body, w')
            \<and> map_of (respuestas body) model = Some respuesta)
       \<and> fst (preguntar2 llm (db\<lparr>insert_respuesta := refuse\<rparr>) w (Some texto))
           = fst (preguntar2 llm db w (Some texto))"
proof -
  have db': "insert_pregunta (db\<lparr>insert_respuesta := refuse\<rparr>) texto = Inr pid"
    using assms(2) by simp
  have e: "entry ph llm texto model = respuesta" for ph
    using assms(4) by (simp add: entry_def)
  show ?thesis
    unfolding preguntar1_accepted [OF assms(1,2)] preguntar2_accepted [OF assms(1,2)]
      preguntar1_accepted [OF assms(1) db'] preguntar2_accepted [OF assms(1) db']
    using assms(3) by (simp add: map_of_entries [OF distinct_models] e)
qed

theorem generated_text_returned_witness:
  "''Which shoes?'' \<noteq> [] \<and> insert_pregunta store_flaky ''Which shoes?'' = Inr 1
   \<and> ''Gemini'' \<in> set models
   \<and> callLLMAPI mockLLMResponses2 ''Gemini'' ''Which shoes?''
       = Inr (''Gemini response to: '' @ [CHR 0x22] @ ''Which shoes?'' @ [CHR 0x22])
   \<and> (\<exists>body w'. preguntar1 mockLLMResponses2 store_flaky world0 (Some ''Which shoes?'') = (Json body, w')
            \<and> map_of (respuestas body) ''Gemini''
                = Some (''Gemini response to: '' @ [CHR 0x22] @ ''Which shoes?'' @ [CHR 0x22]))
   \<and> fst (preguntar1 mockLLMResponses2 (store_flaky\<lparr>insert_respuesta := (\<lambda>row. None)\<rparr>) world0
             (Some ''Which shoes?''))
       = fst (preguntar1 mockLLMResponses2 store_flaky world0 (Some ''Which shoes?''))
   \<and> (\<exists>body w'. preguntar2 mockLLMResponses2 store_flaky world0 (Some ''Which shoes?'') = (Json body, w')
            \<and> map_of (respuestas body) ''Gemini''
                = Some (''Gemini response to: '' @ [CHR 0x22] @ ''Which shoes?'' @ [CHR 0x22]))
   \<and> fst (preguntar2 mockLLMResponses2 (store_flaky\<lparr>insert_respuesta := (\<lambda>row. None)\<rparr>) world0
             (Some ''Which shoes?''))
       = fst (preguntar2 mockLLMResponses2 store_flaky world0 (Some ''Which shoes?''))"
proof -
  have h1: "''Which shoes?'' \<noteq> []" by simp
  have h2: "insert_pregunta store_flaky ''Which shoes?'' = Inr 1" by (simp add: store_flaky_def)
  have h3: "''Gemini'' \<in> set models" by (simp add: models_def)
  have h4: "callLLMAPI mockLLMResponses2 ''Gemini'' ''Which shoes?''
       = Inr (''Gemini response to: '' @ [CHR 0x22] @ ''Which shoes?'' @ [CHR 0x22])"
    by (simp add: callLLMAPI_def mockLLMResponses2_def)
  show ?thesis
    using h1 h2 h3 h4
      generated_text_returned [OF h1 h2 h3 h4, where w = world0 and refuse = "\<lambda>row. None"]
    by blast
qed

section \<open>Aggregation: what a call reads and leaves\<close>

text \<open>
  C8. The aggregation is pure and idempotent. Both counting objects are created by the
  call itself, and the handler writes nothing: the world after the request is the world
  before it, a second request on it gives the same response (totals, breakdowns, chart
  data and counts, or the same error), and the response depends on the world only through
  the table of brands and the table of answers. This holds for the three iterations, the
  store and the expression engine behaving the same in both calls.
\<close>

theorem dashboard_pure:
  "snd (dashboard_data1 host db w) = w
   \<and> dashboard_data1 host db (snd (dashboard_data1 host db w)) = dashboard_data1 host db w
   \<and> (marcas_table w' = marcas_table w \<and> respuestas_table w' = respuestas_table w
        \<longrightarrow> fst (dashboard_data1 host db w') = fst (dashboard_data1 host db w))
   \<and> snd (dashboard_data2 msg host db w) = w
   \<and> dashboard_data2 msg host db (snd (dashboard_data2 msg host db w)) = dashboard_data2 msg host db w
   \<and> (marcas_table w' = marcas_table w \<and> respuestas_table w' = respuestas_table w
        \<longrightarrow> fst (dashboard_data2 msg host db w') = fst (dashboard_data2 msg host db w))"
proof -
  have s1: "snd (dashboard_data1 host db v) = v" for v
    by (simp add: dashboard_data1_def split: option.splits sum.splits)
  have s2: "snd (dashboard_data2 msg host db v) = v" for v
    by (simp add: dashboard_data2_def split: option.splits sum.splits)
  have f1: "fst (dashboard_data1 host db w') = fst (dashboard_data1 host db w)"
    if "marcas_table w' = marcas_table w" "respuestas_table w' = respuestas_table w"
    using that by (simp add: dashboard_data1_def split: option.splits sum.splits)
  have f2: "fst (dashboard_data2 msg host db w') = fst (dashboard_data2 msg host db w)"
    if "marcas_table w' = marcas_table w" "respuestas_table w' = respuestas_table w"
    using that by (simp add: dashboard_data2_def split: option.splits sum.splits)
  show ?thesis
    using s1 s2 f1 f2 by simp
qed

theorem dashboard_pure_witness:
  "marcas_table (world_nike\<lparr>llm_calls := [(''Gemini'', ''Which shoes?'')]\<rparr>) = marcas_table world_nike
   \<and> respuestas_table (world_nike\<lparr>llm_calls := [(''Gemini'', ''Which shoes?'')]\<rparr>)
       = respuestas_table world_nike
   \<and> snd (dashboard_data1 host_throws store_ok world_nike) = world_nike
   \<and> dashboard_data1 host_throws store_ok (snd (dashboard_data1 host_throws store_ok world_nike))
       = dashboard_data1 host_throws store_ok world_nike
   \<and> fst (dashboard_data1 host_throws store_ok (world_nike\<lparr>llm_calls := [(''Gemini'', ''Which shoes?'')]\<rparr>))
       = fst (dashboard_data1 host_throws store_ok world_nike)
   \<and> snd (dashboard_data2 ''Error en dashboard-data'' host_throws store_ok world_nike) = world_nike
   \<and> dashboard_data2 ''Error en dashboard-data'' host_throws store_ok
         (snd (dashboard_data2 ''Error en dashboard-data'' host_throws store_ok world_nike))
       = dashboard_data2 ''Error en dashboard-data'' host_throws store_ok world_nike
   \<and> fst (dashboard_data2 ''Error en dashboard-data'' host_throws store_ok
         (world_nike\<lparr>llm_calls := [(''Gemini'', ''Which shoes?'')]\<rparr>))
       = fst (dashboard_data2 ''Error en dashboard-data'' host_throws store_ok world_nike)
   \<and> fst (dashboard_data1 host_throws store_ok world_nike)
       = Json \<lparr>brandMentions = [(''Nike'', Num 2)],
               modelBrandMentions =
                 [(''Nike'', [(''Gemini'', Num 2), (''ChatGPT'', Num 0), (''Claude'', Num 0)])],
               pieChartData = \<lparr>labels = [''Nike''], data = [Num 2]\<rparr>,
               totalResponses = 1, totalBrands = 1\<rparr>"
proof -
  have v: "fst (dashboard_data1 host_throws store_ok world_nike)
       = Json \<lparr>brandMentions = [(''Nike'', Num 2)],
               modelBrandMentions =
                 [(''Nike'', [(''Gemini'', Num 2), (''ChatGPT'', Num 0), (''Claude'', Num 0)])],
               pieChartData = \<lparr>labels = [''Nike''], data = [Num 2]\<rparr>,
               totalResponses = 1, totalBrands = 1\<rparr>"
    by code_simp
  show ?thesis
    using v dashboard_pure [where w = world_nike and db = store_ok and host = host_throws
        and w' = "world_nike\<lparr>llm_calls := [(''Gemini'', ''Which shoes?'')]\<rparr>"
        and msg = "''Error en dashboard-data''"]
    by simp
qed

section \<open>Objects and loops: auxiliary facts\<close>

text \<open>What an object answers after an assignment, and induction over \<^verbatim>\<open>forEach\<close>.\<close>

lemma map_of_js_define:
  "map_of obj k = None \<Longrightarrow> map_of (js_define k v obj) = (map_of obj)(k \<mapsto> v)"
  by (induction obj) (auto simp: fun_eq_iff split: if_splits)

lemma map_of_replace:
  "map_of (map (\<lambda>(k', v'). if k' = k then (k', f v') else (k', v')) obj)
   = (map_of obj)(k := map_option f (map_of obj k))"
  by (induction obj) (auto simp: fun_eq_iff)

lemma map_of_js_set:
  "k \<noteq> ''__proto__'' \<Longrightarrow> map_of (js_set obj k v) = (map_of obj)(k \<mapsto> v)"
  using map_of_replace [of k "\<lambda>_. v" obj]
  by (cases "map_of obj k") (simp_all add: js_set_def map_of_js_define)

lemma js_set_proto: "js_set obj ''__proto__'' v = obj"
  by (simp add: js_set_def)

lemma map_of_in_place:
  "map_of (in_place obj k f) = (map_of obj)(k := map_option f (map_of obj k))"
  unfolding in_place_def by (rule map_of_replace)

lemma forEach_invariant:
  assumes "forEach f xs s = Inr s'" and "I s"
    and step: "\<And>x u u'. x \<in> set xs \<Longrightarrow> I u \<Longrightarrow> f u x = Inr u' \<Longrightarrow> I u'"
  shows "I s'"
  using assms
proof (induction xs arbitrary: s)
  case Nil
  then show ?case by simp
next
  case (Cons x xs)
  from Cons.prems(1) obtain u where u: "f s x = Inr u" and r: "forEach f xs u = Inr s'"
    by (auto split: sum.splits)
  have i: "I u" using Cons.prems(3) [of x s u] Cons.prems(2) u by simp
  have st: "I v'" if "y \<in> set xs" "I v" "f v y = Inr v'" for y v v'
    using Cons.prems(3) [of y v v'] that by simp
  show ?case
    by (rule Cons.IH [OF r i]) (rule st)
qed

lemma forEach_throws:
  assumes "forEach f xs s = Inl e" and "I s"
    and step: "\<And>x u u'. x \<in> set xs \<Longrightarrow> I u \<Longrightarrow> f u x = Inr u' \<Longrightarrow> I u'"
  shows "\<exists>x \<in> set xs. \<exists>u. I u \<and> f u x = Inl e"
  using assms
proof (induction xs arbitrary: s)
  case Nil
  then show ?case by simp
next
  case (Cons x xs)
  show ?case
  proof (cases "f s x")
    case (Inl e')
    then have "e' = e" using Cons.prems(1) by simp
    then show ?thesis using Inl Cons.prems(2) by auto
  next
    case (Inr u)
    then have r: "forEach f xs u = Inl e" using Cons.prems(1) by simp
    have i: "I u" using Cons.prems(3) [of x s u] Cons.prems(2) Inr by simp
    have st: "I v'" if "y \<in> set xs" "I v" "f v y = Inr v'" for y v v'
      using Cons.prems(3) [of y v v'] that by simp
    from Cons.IH [OF r i st] show ?thesis by auto
  qed
qed

section \<open>Aggregation: the only exception is the engine's\<close>

text \<open>
  The first loop gives every brand a breakdown and the second loop removes none, so the
  \<^verbatim>\<open>TypeError\<close> case of the loop body is never reached from the handler: whatever leaves
  the aggregation as an exception was thrown by the expression engine.
\<close>

lemma init_marca_keeps:
  assumes "init_marca c marca = Inr c'" and "map_of (snd c) name \<noteq> None"
  shows "map_of (snd c') name \<noteq> None"
proof (cases "nombre_marca marca = ''__proto__''")
  case True
  then show ?thesis using assms by (auto simp: init_marca_def js_set_proto split: prod.splits)
next
  case False
  then show ?thesis using assms by (auto simp: init_marca_def map_of_js_set split: prod.splits)
qed

lemma init_marca_adds:
  assumes "init_marca c marca = Inr c'" and "nombre_marca marca \<noteq> ''__proto__''"
  shows "map_of (snd c') (nombre_marca marca) \<noteq> None"
  using assms by (auto simp: init_marca_def map_of_js_set split: prod.splits)

lemma init_has_breakdowns:
  "forEach init_marca marcas c = Inr c' \<Longrightarrow>
   (\<forall>name. map_of (snd c) name \<noteq> None \<longrightarrow> map_of (snd c') name \<noteq> None)
   \<and> has_breakdowns marcas c'"
proof (induction marcas arbitrary: c)
  case Nil
  then show ?case by (simp add: has_breakdowns_def)
next
  case (Cons marca marcas)
  from Cons.prems obtain c1 where a: "init_marca c marca = Inr c1"
    and b: "forEach init_marca marcas c1 = Inr c'"
    by (auto split: sum.splits)
  from Cons.IH [OF b] have k: "\<forall>name. map_of (snd c1) name \<noteq> None \<longrightarrow> map_of (snd c') name \<noteq> None"
    and h: "has_breakdowns marcas c'" by simp_all
  have "nombre_marca marca = ''__proto__'' \<or> map_of (snd c') (nombre_marca marca) \<noteq> None"
    using init_marca_adds [OF a] k by blast
  moreover have "\<forall>name. map_of (snd c) name \<noteq> None \<longrightarrow> map_of (snd c') name \<noteq> None"
    using init_marca_keeps [OF a] k by blast
  ultimately show ?case using h by (simp add: has_breakdowns_def)
qed

lemma count_marca1_keeps:
  assumes "count_marca1 host texto modelo c marca = Inr c'" and "map_of (snd c) name \<noteq> None"
  shows "map_of (snd c') name \<noteq> None"
  using assms
  by (auto simp: count_marca1_def Let_def map_of_in_place split: prod.splits sum.splits if_splits option.splits)

lemma count_marca2_keeps:
  assumes "count_marca2 host texto modelo c marca = Inr c'" and "map_of (snd c) name \<noteq> None"
  shows "map_of (snd c') name \<noteq> None"
  using assms
  by (auto simp: count_marca2_def Let_def map_of_in_place split: prod.splits sum.splits if_splits option.splits)

lemma count_marca1_throws:
  assumes "count_marca1 host texto modelo c marca = Inl e"
    and "nombre_marca marca = ''__proto__'' \<or> map_of (snd c) (nombre_marca marca) \<noteq> None"
  shows "\<exists>pattern. host pattern texto = Inl e"
  using assms
  by (auto simp: count_marca1_def Let_def match_length_def
      split: prod.splits sum.splits if_splits option.splits)

lemma count_marca2_throws:
  assumes "count_marca2 host texto modelo c marca = Inl e"
    and "nombre_marca marca = ''__proto__'' \<or> map_of (snd c) (nombre_marca marca) \<noteq> None"
  shows "\<exists>pattern. host pattern texto = Inl e"
  using assms
  by (auto simp: count_marca2_def Let_def match_length_def
      split: prod.splits sum.splits if_splits option.splits)

lemma aggregate_throws:
  assumes a: "aggregate count marcas rs = Inl e"
    and keeps: "\<And>texto modelo c marca c' name.
        count texto modelo c marca = Inr c' \<Longrightarrow> map_of (snd c) name \<noteq> None
        \<Longrightarrow> map_of (snd c') name \<noteq> None"
    and throws: "\<And>texto modelo c marca.
        count texto modelo c marca = Inl e
        \<Longrightarrow> nombre_marca marca = ''__proto__'' \<or> map_of (snd c) (nombre_marca marca) \<noteq> None
        \<Longrightarrow> \<exists>pattern. host pattern texto = Inl e"
  shows "\<exists>pattern texto. host pattern texto = Inl e"
proof -
  have ni: "forEach init_marca marcas c \<noteq> Inl e'" for c e'
    by (induction marcas arbitrary: c) (auto simp: init_marca_def split: prod.splits sum.splits)
  from a ni obtain c0 where i: "forEach init_marca marcas ([], []) = Inr c0"
    and r: "forEach (count_respuesta count marcas) rs c0 = Inl e"
    by (auto simp: aggregate_def split: sum.splits prod.splits)
  have h0: "has_breakdowns marcas c0"
    using init_has_breakdowns [OF i] by simp
  have inner: "has_breakdowns marcas u'"
    if "has_breakdowns marcas u" and "forEach (count texto modelo) ms u = Inr u'"
    for u u' texto modelo ms
    using that(2,1)
  proof (rule forEach_invariant [where I = "has_breakdowns marcas"])
    fix x v v'
    assume "has_breakdowns marcas v" and "count texto modelo v x = Inr v'"
    then show "has_breakdowns marcas v'"
      unfolding has_breakdowns_def using keeps by blast
  qed
  have outer: "has_breakdowns marcas u'"
    if "has_breakdowns marcas u" and "count_respuesta count marcas u x = Inr u'" for u u' x
    using that inner by (simp add: count_respuesta_def)
  have "\<exists>x \<in> set rs. \<exists>u. has_breakdowns marcas u \<and> count_respuesta count marcas u x = Inl e"
    by (rule forEach_throws [where I = "has_breakdowns marcas", OF r h0]) (rule outer)
  then obtain x u where u: "has_breakdowns marcas u" and t: "count_respuesta count marcas u x = Inl e"
    by blast
  let ?texto = "toLowerCase (texto_respuesta x)"
  have t': "forEach (count ?texto (modelo_llm x)) marcas u = Inl e"
    using t by (simp add: count_respuesta_def)
  have one: "has_breakdowns marcas v'"
    if "y \<in> set marcas" "has_breakdowns marcas v" "count ?texto (modelo_llm x) v y = Inr v'"
    for y v v'
    using that(2,3) keeps unfolding has_breakdowns_def by blast
  have "\<exists>marca \<in> set marcas. \<exists>v. has_breakdowns marcas v
          \<and> count ?texto (modelo_llm x) v marca = Inl e"
    by (rule forEach_throws [where I = "has_breakdowns marcas", OF t' u]) (rule one)
  then obtain marca v where m: "marca \<in> set marcas" and v: "has_breakdowns marcas v"
    and s: "count ?texto (modelo_llm x) v marca = Inl e"
    by blast
  have "nombre_marca marca = ''__proto__'' \<or> map_of (snd v) (nombre_marca marca) \<noteq> None"
    using v m by (auto simp: has_breakdowns_def)
  from throws [OF s this] show ?thesis by blast
qed

theorem aggregate_throws_what_host_throws:
  "aggregate (count_marca1 host) marcas rs = Inl e \<Longrightarrow> \<exists>pattern texto. host pattern texto = Inl e"
  "aggregate (count_marca2 host) marcas rs = Inl e \<Longrightarrow> \<exists>pattern texto. host pattern texto = Inl e"
proof -
  show "\<exists>pattern texto. host pattern texto = Inl e"
    if "aggregate (count_marca1 host) marcas rs = Inl e"
    using that
  proof (rule aggregate_throws)
    show "map_of (snd c') name \<noteq> None"
      if "count_marca1 host texto modelo c marca = Inr c'" "map_of (snd c) name \<noteq> None"
      for texto modelo c marca c' name
      using that by (rule count_marca1_keeps)
    show "\<exists>pattern. host pattern texto = Inl e"
      if "count_marca1 host texto modelo c marca = Inl e"
        "nombre_marca marca = ''__proto__'' \<or> map_of (snd c) (nombre_marca marca) \<noteq> None"
      for texto modelo c marca
      using that by (rule count_marca1_throws)
  qed
  show "\<exists>pattern texto. host pattern texto = Inl e"
    if "aggregate (count_marca2 host) marcas rs = Inl e"
    using that
  proof (rule aggregate_throws)
    show "map_of (snd c') name \<noteq> None"
      if "count_marca2 host texto modelo c marca = Inr c'" "map_of (snd c) name \<noteq> None"
      for texto modelo c marca c' name
      using that by (rule count_marca2_keeps)
    show "\<exists>pattern. host pattern texto = Inl e"
      if "count_marca2 host texto modelo c marca = Inl e"
        "nombre_marca marca = ''__proto__'' \<or> map_of (snd c) (nombre_marca marca) \<noteq> None"
      for texto modelo c marca
      using that by (rule count_marca2_throws)
  qed
qed

section \<open>Aggregation: totals and breakdowns in the first iteration\<close>

text \<open>The first loop establishes \<open>counted\<close>, and the loop body of the first iteration keeps
  it for an answer of a configured provider, and also for an answer of any provider whose
  name is not inherited from \<^verbatim>\<open>Object.prototype\<close> when \<open>R\<close> allows a larger total.\<close>

lemma breakdown_known:
  assumes "modelo \<in> set models"
  shows "js_get [(''Gemini'', Num x), (''ChatGPT'', Num y), (''Claude'', Num z)] modelo \<noteq> Undefined
    \<and> (\<exists>x' y' z'.
          js_set [(''Gemini'', Num x), (''ChatGPT'', Num y), (''Claude'', Num z)] modelo
            (add_number (js_get [(''Gemini'', Num x), (''ChatGPT'', Num y), (''Claude'', Num z)] modelo) n)
          = [(''Gemini'', Num x'), (''ChatGPT'', Num y'), (''Claude'', Num z')]
          \<and> x' + y' + z' = x + y + z + n)"
  using assms by (auto simp: models_def js_get_def js_set_def)

lemma breakdown_unknown:
  assumes "modelo \<notin> set models" and "modelo \<notin> set Object_prototype"
  shows "js_get [(''Gemini'', Num x), (''ChatGPT'', Num y), (''Claude'', Num z)] modelo = Undefined"
  using assms by (auto simp: models_def js_get_def)

lemma counted_empty: "counted R ([], [])"
  by (simp add: counted_def)

lemma countedD:
  assumes "counted R (bm, mbm)" and "map_of mbm name = Some b"
  shows "\<exists>x y z t. b = [(''Gemini'', Num x), (''ChatGPT'', Num y), (''Claude'', Num z)]
           \<and> map_of bm name = Some (Num t) \<and> R (x + y + z) t"
  using assms unfolding counted_def by blast

lemma counted_proto: "counted R (bm, mbm) \<Longrightarrow> map_of mbm ''__proto__'' = None"
  by (simp add: counted_def)

lemma init_marca_counted:
  assumes "counted R c" and "R 0 0" and "init_marca c marca = Inr c'"
  shows "counted R c'"
proof (cases "nombre_marca marca = ''__proto__''")
  case True
  then show ?thesis
    using assms by (auto simp: init_marca_def js_set_proto split: prod.splits)
next
  case False
  then show ?thesis
    using assms
    by (auto simp: init_marca_def counted_def map_of_js_set split: prod.splits)
qed

lemma count_marca1_counted:
  assumes c: "counted R c" and s: "count_marca1 host texto modelo c marca = Inr c'"
    and add: "\<And>a b n. R a b \<Longrightarrow> R (a + n) (b + n)"
    and m: "modelo \<in> set models
            \<or> (modelo \<notin> set Object_prototype \<and> (\<forall>a b n. R a b \<longrightarrow> R a (b + n)))"
  shows "counted R c'"
proof -
  obtain bm mbm where cc: "c = (bm, mbm)" by (cases c)
  let ?name = "nombre_marca marca"
  show ?thesis
  proof (cases "match_length host texto (toLowerCase ?name)")
    case (Inl e)
    then show ?thesis using s by (simp add: count_marca1_def cc)
  next
    case (Inr n)
    show ?thesis
    proof (cases "n > 0")
      case False
      then show ?thesis using s c Inr by (simp add: count_marca1_def cc)
    next
      case pos: True
      show ?thesis
      proof (cases "map_of mbm ?name")
        case None
        then have p: "?name = ''__proto__''"
          using s Inr pos by (simp add: count_marca1_def cc split: if_splits)
        then have "c' = c"
          using s Inr pos None by (simp add: count_marca1_def cc js_set_proto)
        then show ?thesis using c by simp
      next
        case (Some b)
        then have np: "?name \<noteq> ''__proto__''"
          using counted_proto [OF c [unfolded cc]] by auto
        from countedD [OF c [unfolded cc] Some] obtain x y z t where
          b: "b = [(''Gemini'', Num x), (''ChatGPT'', Num y), (''Claude'', Num z)]"
          and t: "map_of bm ?name = Some (Num t)" and r: "R (x + y + z) t"
          by blast
        have g: "js_get bm ?name = Own (Num t)"
          using t by (simp add: js_get_def)
        let ?bm' = "js_set bm ?name (Num (t + n))"
        have bm': "map_of ?bm' = (map_of bm)(?name \<mapsto> Num (t + n))"
          using np by (rule map_of_js_set)
        show ?thesis
        proof (cases "modelo \<in> set models")
          case True
          from breakdown_known [OF True, of x y z n] obtain x' y' z' where
            d: "js_get b modelo \<noteq> Undefined"
            and u: "js_set b modelo (add_number (js_get b modelo) n)
                    = [(''Gemini'', Num x'), (''ChatGPT'', Num y'), (''Claude'', Num z')]"
            and e: "x' + y' + z' = x + y + z + n"
            unfolding b by blast
          let ?mbm' = "in_place mbm ?name (\<lambda>b. js_set b modelo (add_number (js_get b modelo) n))"
          have c': "c' = (?bm', ?mbm')"
            using s Inr pos Some d g by (simp add: count_marca1_def cc)
          have "R (x' + y' + z') (t + n)"
            using add [OF r, of n] e by simp
          then show ?thesis
            using c Some u np unfolding c' counted_def cc
            by (auto simp: map_of_in_place bm')
        next
          case False
          then have o: "modelo \<notin> set Object_prototype" and w: "\<And>a b n. R a b \<Longrightarrow> R a (b + n)"
            using m by auto
          have d: "js_get b modelo = Undefined"
            unfolding b using False o by (rule breakdown_unknown)
          have c': "c' = (?bm', mbm)"
            using s Inr pos Some d g by (simp add: count_marca1_def cc)
          have "R (x + y + z) (t + n)" using w [OF r] .
          then show ?thesis
            using c Some b np unfolding c' counted_def cc
            by (auto simp: bm')
        qed
      qed
    qed
  qed
qed

lemma count_respuesta1_counted:
  assumes "counted R c" and "count_respuesta (count_marca1 host) marcas c r = Inr c'"
    and add: "\<And>a b n. R a b \<Longrightarrow> R (a + n) (b + n)"
    and m: "modelo_llm r \<in> set models
            \<or> (modelo_llm r \<notin> set Object_prototype \<and> (\<forall>a b n. R a b \<longrightarrow> R a (b + n)))"
  shows "counted R c'"
proof -
  have f: "forEach (count_marca1 host (toLowerCase (texto_respuesta r)) (modelo_llm r)) marcas c
           = Inr c'"
    using assms(2) by (simp add: count_respuesta_def)
  show ?thesis
    by (rule forEach_invariant [where I = "counted R", OF f assms(1)])
      (rule count_marca1_counted [where R = R, OF _ _ add m])
qed

lemma aggregate1_counted:
  assumes a: "aggregate (count_marca1 host) marcas rs = Inr body"
    and z: "R 0 0" and add: "\<And>a b n. R a b \<Longrightarrow> R (a + n) (b + n)"
    and m: "\<And>r. r \<in> set rs \<Longrightarrow> modelo_llm r \<in> set models
            \<or> (modelo_llm r \<notin> set Object_prototype \<and> (\<forall>a b n. R a b \<longrightarrow> R a (b + n)))"
  shows "counted R (brandMentions body, modelBrandMentions body)"
proof -
  from a obtain c0 c1 where i: "forEach init_marca marcas ([], []) = Inr c0"
    and r: "forEach (count_respuesta (count_marca1 host) marcas) rs c0 = Inr c1"
    and b: "c1 = (brandMentions body, modelBrandMentions body)"
    by (auto simp: aggregate_def split: sum.splits prod.splits)
  have "counted R c0"
    by (rule forEach_invariant [where I = "counted R", OF i counted_empty])
      (rule init_marca_counted [where R = R, OF _ z])
  then have "counted R c1"
    by (rule forEach_invariant [where I = "counted R", OF r])
      (rule count_respuesta1_counted [where R = R, OF _ _ add m])
  then show ?thesis by (simp add: b)
qed

section \<open>Aggregation: counting the mentions of a name\<close>

text \<open>
  C7. Counting the brand name \<^verbatim>\<open>aa\<close> in the answer text \<^verbatim>\<open>aaa\<close> gives 1: the match at
  position 0 takes the first two characters, and the one character left cannot match. The
  first conjunct is the count itself, the second the whole aggregation over that brand and
  that answer.
\<close>

theorem aa_in_aaa_counts_once:
  "match_length host (toLowerCase ''aaa'') (toLowerCase ''aa'') = Inr 1
   \<and> aggregate (count_marca1 host) [\<lparr>nombre_marca = ''aa''\<rparr>]
        [\<lparr>id_pregunta = 1, modelo_llm = ''Gemini'', texto_respuesta = ''aaa''\<rparr>]
      = Inr \<lparr>brandMentions = [(''aa'', Num 1)],
             modelBrandMentions =
               [(''aa'', [(''Gemini'', Num 1), (''ChatGPT'', Num 0), (''Claude'', Num 0)])],
             pieChartData = \<lparr>labels = [''aa''], data = [Num 1]\<rparr>,
             totalResponses = 1, totalBrands = 1\<rparr>"
  by code_simp

text \<open>
  A name without syntax characters is counted as the spec says: the count is the number of
  occurrences of the name in lower case, as a literal string, in the text in lower case.
\<close>

lemma pattern_atoms_literal:
  "\<forall>c \<in> set p. \<not> SyntaxCharacter c \<Longrightarrow> pattern_atoms p = Some (map PatternCharacter p)"
  by (induction p) (auto simp: SyntaxCharacter_def)

lemma matches_at_literal:
  "matches_at (map PatternCharacter p) s \<longleftrightarrow> take (length p) s = p"
  by (induction p arbitrary: s) (case_tac s; auto)+

lemma match_all_literal:
  "p \<noteq> [] \<Longrightarrow> match_all (map PatternCharacter p) s = literal_occurrences p s"
proof (induction p s rule: literal_occurrences.induct)
  case (1 needle)
  then show ?case by (cases needle) auto
next
  case (2 needle c cs)
  then obtain a as where n: "needle = a # as" by (cases needle) auto
  have m: "matches_at (map PatternCharacter needle) (c # cs) \<longleftrightarrow> take (length needle) (c # cs) = needle"
    by (rule matches_at_literal)
  show ?case
    using 2 m unfolding n by (auto simp del: matches_at.simps)
qed

lemma of_char_lower:
  "(of_char (toLowerCase_char c) :: nat) =
     (let n = of_char c in
      if (65 \<le> n \<and> n \<le> 90) \<or> (192 \<le> n \<and> n \<le> 214) \<or> (216 \<le> n \<and> n \<le> 222) then n + 32 else n)"
  by (auto simp: toLowerCase_char_def Let_def)

lemma SyntaxCharacter_code:
  "SyntaxCharacter c \<longleftrightarrow> (of_char c :: nat) \<in> {94, 36, 92, 46, 42, 43, 63, 40, 41, 91, 93, 123, 125, 124}"
proof -
  have e: "(x = d) = ((of_char x :: nat) = of_char d)" for x d :: char
    by auto
  show ?thesis
    unfolding SyntaxCharacter_def by (simp add: e)
qed

lemma lower_keeps_literal: "\<not> SyntaxCharacter c \<Longrightarrow> \<not> SyntaxCharacter (toLowerCase_char c)"
  unfolding SyntaxCharacter_code of_char_lower by (auto simp: Let_def)

theorem literal_names_counted_literally:
  assumes "name \<noteq> []" and "\<forall>c \<in> set name. \<not> SyntaxCharacter c"
  shows "match_length host (toLowerCase text) (toLowerCase name)
         = Inr (literal_occurrences (toLowerCase name) (toLowerCase text))"
proof -
  have l: "\<forall>c \<in> set (toLowerCase name). \<not> SyntaxCharacter c"
    using assms(2) by (auto simp: toLowerCase_def lower_keeps_literal)
  have n: "toLowerCase name \<noteq> []"
    using assms(1) by (simp add: toLowerCase_def)
  show ?thesis
    by (simp add: match_length_def pattern_atoms_literal [OF l] match_all_literal [OF n])
qed

text \<open>
  C2. The claim is that every name is counted as a literal string. The handlers give the
  name in lower case to \<^verbatim>\<open>new RegExp\<close> as it is, so a name with a syntax character is
  read as a pattern: the brand \<^verbatim>\<open>A.C\<close> is counted once in the text \<^verbatim>\<open>abc\<close>, where the
  literal string \<^verbatim>\<open>a.c\<close> does not occur.
\<close>

theorem pattern_name_counted_as_pattern:
  "match_length host (toLowerCase ''abc'') (toLowerCase ''A.C'') = Inr 1
   \<and> literal_occurrences (toLowerCase ''A.C'') (toLowerCase ''abc'') = 0
   \<and> aggregate (count_marca1 host) [\<lparr>nombre_marca = ''A.C''\<rparr>]
        [\<lparr>id_pregunta = 1, modelo_llm = ''Gemini'', texto_respuesta = ''abc''\<rparr>]
      = Inr \<lparr>brandMentions = [(''A.C'', Num 1)],
             modelBrandMentions =
               [(''A.C'', [(''Gemini'', Num 1), (''ChatGPT'', Num 0), (''Claude'', Num 0)])],
             pieChartData = \<lparr>labels = [''A.C''], data = [Num 1]\<rparr>,
             totalResponses = 1, totalBrands = 1\<rparr>"
  by code_simp

section \<open>Aggregation: answers of a provider that is not configured\<close>

text \<open>
  C1. The claim is that an answer of a provider that is not configured adds its mentions to
  the total of the brand, leaves the breakdown of the brand as it is (the spec: such an
  answer is dropped from the breakdown) and raises no error. The second and third
  iterations update the breakdown without a test: for the provider \<^verbatim>\<open>X\<close> the total is
  incremented and nothing is thrown, but the breakdown of the brand gets a fourth entry,
  \<^verbatim>\<open>X\<close> with the value \<^verbatim>\<open>NaN\<close> (first conjunct). The first iteration, which has the
  test, leaves the breakdown alone on the same input (second conjunct).
\<close>

theorem unknown_provider_adds_entry:
  "aggregate (count_marca2 host) [\<lparr>nombre_marca = ''Nike''\<rparr>]
        [\<lparr>id_pregunta = 1, modelo_llm = ''X'', texto_respuesta = ''I like Nike''\<rparr>]
      = Inr \<lparr>brandMentions = [(''Nike'', Num 1)],
             modelBrandMentions =
               [(''Nike'', [(''Gemini'', Num 0), (''ChatGPT'', Num 0), (''Claude'', Num 0),
                           (''X'', NaN)])],
             pieChartData = \<lparr>labels = [''Nike''], data = [Num 1]\<rparr>,
             totalResponses = 1, totalBrands = 1\<rparr>
   \<and> aggregate (count_marca1 host) [\<lparr>nombre_marca = ''Nike''\<rparr>]
        [\<lparr>id_pregunta = 1, modelo_llm = ''X'', texto_respuesta = ''I like Nike''\<rparr>]
      = Inr \<lparr>brandMentions = [(''Nike'', Num 1)],
             modelBrandMentions =
               [(''Nike'', [(''Gemini'', Num 0), (''ChatGPT'', Num 0), (''Claude'', Num 0)])],
             pieChartData = \<lparr>labels = [''Nike''], data = [Num 1]\<rparr>,
             totalResponses = 1, totalBrands = 1\<rparr>"
  by code_simp

text \<open>
  In the first iteration the claim holds for every provider name that is neither configured
  nor inherited from \<^verbatim>\<open>Object.prototype\<close>: the loop body adds the mentions to the total
  and leaves every breakdown as it is.
\<close>

lemma unknown_provider_guarded:
  assumes c: "counted R (bm, mbm)"
    and "modelo \<notin> set models" and "modelo \<notin> set Object_prototype"
    and "match_length host texto (toLowerCase (nombre_marca marca)) = Inr n" and "n > 0"
    and "map_of mbm (nombre_marca marca) = Some b"
  shows "\<exists>t. map_of bm (nombre_marca marca) = Some (Num t)
           \<and> count_marca1 host texto modelo (bm, mbm) marca
               = Inr (js_set bm (nombre_marca marca) (Num (t + n)), mbm)"
proof -
  from countedD [OF c assms(6)] obtain x y z t where
    b: "b = [(''Gemini'', Num x), (''ChatGPT'', Num y), (''Claude'', Num z)]"
    and t: "map_of bm (nombre_marca marca) = Some (Num t)"
    by blast
  have d: "js_get b modelo = Undefined"
    unfolding b using assms(2,3) by (rule breakdown_unknown)
  have g: "js_get bm (nombre_marca marca) = Own (Num t)"
    using t by (simp add: js_get_def)
  show ?thesis
    using assms(4,5,6) d g t by (simp add: count_marca1_def)
qed

text \<open>
  C10. The claim is that the entries of a breakdown sum to at most the total of the brand.
  The test of the first iteration compares what the breakdown answers under the name of
  the provider with \<^verbatim>\<open>undefined\<close>, and a breakdown answers under the names it inherits
  from \<^verbatim>\<open>Object.prototype\<close> too: for an answer whose provider is named \<^verbatim>\<open>constructor\<close>
  the breakdown gets an entry that is a string, and its entries have no sum (first and
  second conjunct). In the second and third iterations, which have no test, the same
  happens for the answer of any provider that is not configured: the entry is \<^verbatim>\<open>NaN\<close>
  (third conjunct).
\<close>

theorem inherited_name_breaks_breakdown:
  "aggregate (count_marca1 host) [\<lparr>nombre_marca = ''Nike''\<rparr>]
        [\<lparr>id_pregunta = 1, modelo_llm = ''constructor'', texto_respuesta = ''I like Nike''\<rparr>]
      = Inr \<lparr>brandMentions = [(''Nike'', Num 1)],
             modelBrandMentions =
               [(''Nike'', [(''Gemini'', Num 0), (''ChatGPT'', Num 0), (''Claude'', Num 0),
                           (''constructor'', Text (Append (Member ''constructor'') 1))])],
             pieChartData = \<lparr>labels = [''Nike''], data = [Num 1]\<rparr>,
             totalResponses = 1, totalBrands = 1\<rparr>
   \<and> numbers_sum (map snd [(''Gemini'', Num 0), (''ChatGPT'', Num 0), (''Claude'', Num 0),
                           (''constructor'', Text (Append (Member ''constructor'') 1))]) = None
   \<and> (case aggregate (count_marca2 host) [\<lparr>nombre_marca = ''Nike''\<rparr>]
              [\<lparr>id_pregunta = 1, modelo_llm = ''X'', texto_respuesta = ''I like Nike''\<rparr>] of
         Inr body \<Rightarrow>
           brandMentions body = [(''Nike'', Num 1)]
           \<and> map (\<lambda>(name, b). numbers_sum (map snd b)) (modelBrandMentions body) = [None]
       | Inl error \<Rightarrow> False)"
  by code_simp

text \<open>
  When no answer has a provider named like an inherited member, the claim holds in the
  first iteration: each breakdown has its three numbers, and their sum is at most the
  total of the brand, and equal to it when every answer comes from a configured provider.
\<close>

theorem breakdown_within_total:
  assumes "aggregate (count_marca1 host) marcas rs = Inr body"
    and "\<forall>r \<in> set rs. modelo_llm r \<notin> set Object_prototype"
    and "map_of (modelBrandMentions body) name = Some b"
  shows "\<exists>x y z t. b = [(''Gemini'', Num x), (''ChatGPT'', Num y), (''Claude'', Num z)]
           \<and> map_of (brandMentions body) name = Some (Num t) \<and> x + y + z \<le> t"
proof -
  have "counted (\<le>) (brandMentions body, modelBrandMentions body)"
    by (rule aggregate1_counted [OF assms(1)]) (use assms(2) in auto)
  then show ?thesis using assms(3) by (rule countedD)
qed

theorem breakdown_equals_total:
  assumes "aggregate (count_marca1 host) marcas rs = Inr body"
    and "\<forall>r \<in> set rs. modelo_llm r \<in> set models"
    and "map_of (modelBrandMentions body) name = Some b"
  shows "\<exists>x y z t. b = [(''Gemini'', Num x), (''ChatGPT'', Num y), (''Claude'', Num z)]
           \<and> map_of (brandMentions body) name = Some (Num t) \<and> x + y + z = t"
proof -
  have "counted (=) (brandMentions body, modelBrandMentions body)"
    by (rule aggregate1_counted [OF assms(1)]) (use assms(2) in auto)
  then show ?thesis using assms(3) by (rule countedD)
qed

end
